theory Spec2Isabelle
  imports Complex_Main
begin

section \<open>Values and errors\<close>

text \<open>
  The exceptions that \<^verbatim>\<open>trainer.py\<close> can raise, as values. The string of
  \<open>AttributeError\<close> and \<open>UnboundLocalError\<close> is the name that could not be resolved.
  \<open>OSError\<close> stands for what directory creation and serialisation raise.
\<close>

datatype py_error =
    AttributeError string
  | UnboundLocalError string
  | StopIteration
  | ZeroDivisionError
  | TypeError
  | RuntimeError
  | IndexError
  | OSError

text \<open>
  A Python float. Finite values are idealised as reals (no rounding, no overflow); the
  not-a-number value is kept, because the mean of an empty tensor produces it without raising.
\<close>

datatype pyfloat = NaN | Val real

fun fadd :: "pyfloat \<Rightarrow> pyfloat \<Rightarrow> pyfloat" where
  "fadd (Val a) (Val b) = Val (a + b)"
| "fadd _ _ = NaN"

text \<open>\<^verbatim>\<open>x / k\<close> for a float \<open>x\<close> and an integer \<open>k\<close>: Python raises on a zero divisor.\<close>

fun fdiv_int :: "pyfloat \<Rightarrow> int \<Rightarrow> py_error + pyfloat" where
  "fdiv_int x k =
     (if k = 0 then Inl ZeroDivisionError
      else (case x of NaN \<Rightarrow> Inr NaN | Val a \<Rightarrow> Inr (Val (a / real_of_int k))))"

section \<open>Tensor primitives used by \<^verbatim>\<open>accuracy\<close>\<close>

text \<open>
  A prediction batch is a matrix of class scores, one row per example; a target batch is a
  vector of class indices. \<open>argmax_row\<close> is the index of the first maximal entry of a row,
  which is what \<^verbatim>\<open>torch.argmax\<close> returns on ties.
\<close>

fun argmax_row :: "real list \<Rightarrow> nat" where
  "argmax_row [] = 0"
| "argmax_row [x] = 0"
| "argmax_row (x # y # ys) =
     (let j = argmax_row (y # ys) in if x < (y # ys) ! j then Suc j else 0)"

text \<open>\<^verbatim>\<open>torch.argmax(t, dim=1)\<close>: a class dimension of size zero is an error.\<close>

definition argmax_dim1 :: "real list list \<Rightarrow> py_error + nat list" where
  "argmax_dim1 t = (if [] \<in> set t then Inl IndexError else Inr (map argmax_row t))"

text \<open>
  \<^verbatim>\<open>a == b\<close> on two vectors: element-wise when the lengths agree, broadcast when one of
  them has a single element, an error otherwise.
\<close>

definition tensor_eq :: "nat list \<Rightarrow> int list \<Rightarrow> py_error + bool list" where
  "tensor_eq a b =
     (if length a = length b then Inr (map2 (\<lambda>x y. int x = y) a b)
      else if length b = 1 then Inr (map (\<lambda>x. int x = hd b) a)
      else if length a = 1 then Inr (map (\<lambda>y. int (hd a) = y) b)
      else Inl RuntimeError)"

text \<open>\<^verbatim>\<open>.sum().item()\<close> of a boolean vector: the number of true entries.\<close>

definition tensor_sum :: "bool list \<Rightarrow> nat" where
  "tensor_sum bs = length (filter (\<lambda>b. b) bs)"

text \<open>\<^verbatim>\<open>.float().mean()\<close> of a boolean vector; the mean of no element is not a number.\<close>

definition float_mean :: "bool list \<Rightarrow> pyfloat" where
  "float_mean bs = (if bs = [] then NaN else Val (real (tensor_sum bs) / real (length bs)))"

text \<open>
  Modelled from the spec: the module \<^verbatim>\<open>activation\<close> with its class \<^verbatim>\<open>Softmax\<close> is
  not part of the sources. The spec calls it the numerical softmax primitive, a pure function
  that is order-preserving per row. \<^verbatim>\<open>Softmax(-1)\<close> acts on each row of a matrix.
\<close>

definition softmax_row :: "real list \<Rightarrow> real list" where
  "softmax_row row = map (\<lambda>x. exp x / (\<Sum>y\<leftarrow>row. exp y)) row"

section \<open>\<^verbatim>\<open>Trainer.accuracy\<close>\<close>

text \<open>
  \<^verbatim>\<open>(torch.argmax(self.softmax(y_pred), dim=1) == y_target).float().mean()\<close>.
  The softmax held by the trainer is a parameter \<open>sm\<close>, applied to every row.
\<close>

definition accuracy :: "(real list \<Rightarrow> real list) \<Rightarrow> real list list \<Rightarrow> int list \<Rightarrow> py_error + pyfloat" where
  "accuracy sm y_pred y_target =
     (case argmax_dim1 (map sm y_pred) of
        Inl e \<Rightarrow> Inl e
      | Inr ix \<Rightarrow> (case tensor_eq ix y_target of
                     Inl e \<Rightarrow> Inl e
                   | Inr eq \<Rightarrow> Inr (float_mean eq)))"

section \<open>\<^verbatim>\<open>Trainer.prepare_lossfn_optims_lr_scheduler\<close>\<close>

datatype optimizer_kind = RAdam | AdamW

text \<open>The optimizer and the scheduler, as the arguments their constructors receive.\<close>

record optimizer =
  kind :: optimizer_kind
  lr :: real
  betas :: "real \<times> real"
  eps :: real
  weight_decay :: real

record scheduler =
  sched_optimizer :: optimizer
  gamma :: real
  verbose :: bool

text \<open>
  The attributes of \<open>self\<close> that the two methods read and never write. \<open>device\<close> is
  assigned by \<^verbatim>\<open>prepare_model\<close> only, so it is absent (\<open>None\<close>) on a trainer whose
  \<^verbatim>\<open>prepare_model\<close> was never called.
\<close>

record trainer =
  batch_per_epoch_train :: int
  batch_per_epoch_eval :: int
  criterator :: string
  optimizer_type :: string
  device :: "string option"

text \<open>
  \<open>nn\<close> is the namespace of \<^verbatim>\<open>torch.nn\<close>: the object that calling the attribute of a
  given name with no argument yields, or \<open>None\<close> where the module has no such attribute.
  A local variable is an option: \<open>None\<close> while no branch has assigned it. The reference of
  the optimizer to the parameters of \<^verbatim>\<open>model\<close> is part of the opaque engine state, so
  the model argument does not appear here.
\<close>

definition nn_call :: "(string \<Rightarrow> 'l option) \<Rightarrow> string \<Rightarrow> py_error + 'l" where
  "nn_call nn name = (case nn name of None \<Rightarrow> Inl (AttributeError name) | Some l \<Rightarrow> Inr l)"

definition prepare_lossfn_optims_lr_scheduler ::
  "(string \<Rightarrow> 'l option) \<Rightarrow> trainer \<Rightarrow> real \<Rightarrow> real \<Rightarrow> real \<Rightarrow> py_error + ('l \<times> optimizer \<times> scheduler)" where
  "prepare_lossfn_optims_lr_scheduler nn self lr0 wd gm =
     (case (if criterator self = ''bce'' then map_sum id Some (nn_call nn ''BCE'')
            else if criterator self = ''cel'' then map_sum id Some (nn_call nn ''CrossEntropyLoss'')
            else Inr None) of
        Inl e \<Rightarrow> Inl e
      | Inr loss_fn \<Rightarrow>
          (case (if optimizer_type self = ''radam''
                 then Some \<lparr>kind = RAdam, lr = lr0, betas = (9 / 10, 999 / 1000),
                            eps = 1 / 1000000, weight_decay = wd\<rparr>
                 else if optimizer_type self = ''adamw''
                 then Some \<lparr>kind = AdamW, lr = lr0, betas = (9 / 10, 999 / 1000),
                            eps = 1 / 1000000, weight_decay = wd\<rparr>
                 else None) of
             None \<Rightarrow> Inl (UnboundLocalError ''optimizer'')
           | Some opt \<Rightarrow>
               (let sch = \<lparr>sched_optimizer = opt, gamma = gm, verbose = True\<rparr>
                in case loss_fn of
                     None \<Rightarrow> Inl (UnboundLocalError ''loss_fn'')
                   | Some l \<Rightarrow> Inr (l, opt, sch))))"

section \<open>The collaborators of \<^verbatim>\<open>train\<close>\<close>

text \<open>A batch is the triple that a batch source yields.\<close>

record batch =
  input_batch :: "int list list"
  label_batch :: "int list"
  mask_batch :: "int list list"

text \<open>
  The model, the loss function, the tensor engine, the optimizer mathematics and the file
  system are capabilities. \<open>'m\<close> is the state of the model together with the gradients and
  the optimizer statistics that hang on its parameters, \<open>'l\<close> a loss function object and
  \<open>'fs\<close> the file system. Each field is one call of the source:
  \<^verbatim>\<open>model.train(flag)\<close> (\<^verbatim>\<open>model.eval()\<close> is \<^verbatim>\<open>model.train(False)\<close>),
  \<^verbatim>\<open>model(input, mask)\<close>, \<^verbatim>\<open>criteration(y_pred, label)\<close> with \<^verbatim>\<open>.item()\<close>,
  \<^verbatim>\<open>optimizer.zero_grad()\<close>, \<^verbatim>\<open>loss.backward()\<close>, \<^verbatim>\<open>optimizer.step()\<close>,
  \<^verbatim>\<open>lr_scheduler.step()\<close>, \<^verbatim>\<open>os.path.isdir\<close>, \<^verbatim>\<open>os.mkdir\<close> and
  \<^verbatim>\<open>torch.save(model.state_dict(), path)\<close>.
\<close>

record ('m, 'l, 'fs) engine =
  nn :: "string \<Rightarrow> 'l option"
  softmax :: "real list \<Rightarrow> real list"
  set_training :: "bool \<Rightarrow> 'm \<Rightarrow> 'm"
  forward :: "'m \<Rightarrow> int list list \<Rightarrow> int list list \<Rightarrow> py_error + real list list"
  criterion :: "'l \<Rightarrow> real list list \<Rightarrow> int list \<Rightarrow> py_error + pyfloat"
  zero_grad :: "optimizer \<Rightarrow> 'm \<Rightarrow> 'm"
  backward :: "'l \<Rightarrow> 'm \<Rightarrow> batch \<Rightarrow> 'm"
  optimizer_step :: "optimizer \<Rightarrow> 'm \<Rightarrow> 'm"
  scheduler_step :: "scheduler \<Rightarrow> 'm \<Rightarrow> 'm"
  isdir :: "'fs \<Rightarrow> string \<Rightarrow> bool"
  mkdir :: "'fs \<Rightarrow> string \<Rightarrow> py_error + 'fs"
  save :: "'fs \<Rightarrow> 'm \<Rightarrow> string \<Rightarrow> py_error + 'fs"

text \<open>What \<^verbatim>\<open>train\<close> prints, and the calls it makes on its collaborators, in order.\<close>

datatype message =
    PreparingLossFn
  | InitialisedSuccessfully
  | Training
  | AverageTrainingLoss int int pyfloat
  | Validating
  | ValidationAccuracy int int real
  | TrainingFinished
  | CheckingPath
  | CreatingDirectory
  | SavingModelAt string

datatype event =
    Print message
  | ModelTrain bool
  | ModelEval
  | ZeroGrad
  | Forward
  | Backward
  | OptimizerStep
  | SchedulerStep
  | Mkdir string
  | Save string

text \<open>
  The mutable objects \<^verbatim>\<open>train\<close> works on (the model, the file system, the two batch
  sources and \<^verbatim>\<open>self.model_save_path\<close>), the trace of its calls, and its local variables.
  \<open>loop_i\<close> is the local \<^verbatim>\<open>i\<close>, which both loops bind and which is unbound (\<open>None\<close>)
  until a loop body has run; \<open>total_seen\<close> is the local \<^verbatim>\<open>total\<close>.
\<close>

record ('m, 'fs) state =
  model :: 'm
  fs :: 'fs
  train_generator :: "batch list"
  test_generator :: "batch list"
  model_save_path :: "string option"
  trace :: "event list"
  train_loss :: "pyfloat list"
  train_acc :: "pyfloat list"
  test_acc :: "pyfloat list"
  loop_i :: "int option"
  running_train_loss :: pyfloat
  correct_prediction :: real
  total_seen :: real

type_synonym ('m, 'fs) outcome = "py_error \<times> ('m, 'fs) state + ('m, 'fs) state"

definition emit :: "event \<Rightarrow> ('m, 'fs) state \<Rightarrow> ('m, 'fs) state" where
  "emit ev st = st\<lparr>trace := trace st @ [ev]\<rparr>"

section \<open>The training phase of \<^verbatim>\<open>Trainer.train\<close>\<close>

text \<open>The body of the training loop, for the loop index \<open>k\<close>.\<close>

definition train_batch ::
  "('m, 'l, 'fs) engine \<Rightarrow> trainer \<Rightarrow> 'l \<Rightarrow> optimizer \<Rightarrow> int \<Rightarrow> ('m, 'fs) state \<Rightarrow> ('m, 'fs) outcome" where
  "train_batch eng self criteration opt k st0 =
     (let st1 = st0\<lparr>loop_i := Some k\<rparr> in
      case train_generator st1 of
        [] \<Rightarrow> Inl (StopIteration, st1)
      | b # rest \<Rightarrow>
          (let st2 = st1\<lparr>train_generator := rest\<rparr> in
           case device self of
             None \<Rightarrow> Inl (AttributeError ''device'', st2)
           | Some dev \<Rightarrow>
               (let st3 = emit ZeroGrad (st2\<lparr>model := zero_grad eng opt (model st2)\<rparr>);
                    st4 = emit Forward st3
                in case forward eng (model st4) (input_batch b) (mask_batch b) of
                     Inl e \<Rightarrow> Inl (e, st4)
                   | Inr y_pred \<Rightarrow>
                       (case criterion eng criteration y_pred (label_batch b) of
                          Inl e \<Rightarrow> Inl (e, st4)
                        | Inr loss \<Rightarrow>
                            (case accuracy (softmax eng) y_pred (label_batch b) of
                               Inl e \<Rightarrow> Inl (e, st4)
                             | Inr acc \<Rightarrow>
                                 (let st5 = st4\<lparr>train_loss := train_loss st4 @ [loss],
                                                 train_acc := train_acc st4 @ [acc]\<rparr>;
                                      st6 = emit Backward
                                              (st5\<lparr>model := backward eng criteration (model st5) b\<rparr>);
                                      st7 = emit OptimizerStep
                                              (st6\<lparr>model := optimizer_step eng opt (model st6)\<rparr>)
                                  in Inr (st7\<lparr>running_train_loss :=
                                                  fadd (running_train_loss st7) loss\<rparr>)))))))"

text \<open>\<^verbatim>\<open>for i in bar\<close>, over the indices that \<^verbatim>\<open>tqdm.trange\<close> yields.\<close>

fun train_loop ::
  "('m, 'l, 'fs) engine \<Rightarrow> trainer \<Rightarrow> 'l \<Rightarrow> optimizer \<Rightarrow> int list \<Rightarrow> ('m, 'fs) state \<Rightarrow> ('m, 'fs) outcome" where
  "train_loop eng self criteration opt [] st = Inr st"
| "train_loop eng self criteration opt (k # ks) st =
     (case train_batch eng self criteration opt k st of
        Inl e \<Rightarrow> Inl e
      | Inr st' \<Rightarrow> train_loop eng self criteration opt ks st')"

text \<open>
  \<^verbatim>\<open>tqdm.trange(n)\<close> runs over \<^verbatim>\<open>range(n)\<close>: the indices \<open>0\<close> to \<open>n - 1\<close>, none when
  \<open>n \<le> 0\<close>.
\<close>

definition trange :: "int \<Rightarrow> int list" where
  "trange n = [0..n - 1]"

text \<open>
  Lines 208 to 265: reset the running loss, switch the model to training mode, run the
  batches, then print \<^verbatim>\<open>running_train_loss/i\<close>.
\<close>

definition train_phase ::
  "('m, 'l, 'fs) engine \<Rightarrow> trainer \<Rightarrow> 'l \<Rightarrow> optimizer \<Rightarrow> int \<Rightarrow> int \<Rightarrow> ('m, 'fs) state \<Rightarrow> ('m, 'fs) outcome" where
  "train_phase eng self criteration opt num_epochs epoch st0 =
     (let st1 = st0\<lparr>running_train_loss := Val 0\<rparr>;
          st2 = emit (ModelTrain True) (st1\<lparr>model := set_training eng True (model st1)\<rparr>);
          st3 = emit (Print Training) st2
      in case train_loop eng self criteration opt (trange (batch_per_epoch_train self)) st3 of
           Inl e \<Rightarrow> Inl e
         | Inr st4 \<Rightarrow>
             (case loop_i st4 of
                None \<Rightarrow> Inl (UnboundLocalError ''i'', st4)
              | Some k \<Rightarrow>
                  (case fdiv_int (running_train_loss st4) k of
                     Inl e \<Rightarrow> Inl (e, st4)
                   | Inr avg \<Rightarrow>
                       Inr (emit (Print (AverageTrainingLoss epoch num_epochs avg)) st4))))"

section \<open>The validation phase\<close>

definition validate_batch ::
  "('m, 'l, 'fs) engine \<Rightarrow> trainer \<Rightarrow> int \<Rightarrow> ('m, 'fs) state \<Rightarrow> ('m, 'fs) outcome" where
  "validate_batch eng self k st0 =
     (let st1 = st0\<lparr>loop_i := Some k\<rparr> in
      case test_generator st1 of
        [] \<Rightarrow> Inl (StopIteration, st1)
      | b # rest \<Rightarrow>
          (let st2 = st1\<lparr>test_generator := rest\<rparr> in
           case device self of
             None \<Rightarrow> Inl (AttributeError ''device'', st2)
           | Some dev \<Rightarrow>
               (let st3 = emit Forward st2
                in case forward eng (model st3) (input_batch b) (mask_batch b) of
                     Inl e \<Rightarrow> Inl (e, st3)
                   | Inr pred \<Rightarrow>
                       (case accuracy (softmax eng) pred (label_batch b) of
                          Inl e \<Rightarrow> Inl (e, st3)
                        | Inr acc \<Rightarrow>
                            (case argmax_dim1 (map (softmax eng) pred) of
                               Inl e \<Rightarrow> Inl (e, st3)
                             | Inr ix \<Rightarrow>
                                 (case tensor_eq ix (label_batch b) of
                                    Inl e \<Rightarrow> Inl (e, st3)
                                  | Inr eq \<Rightarrow>
                                      Inr (st3\<lparr>correct_prediction :=
                                                  correct_prediction st3 + real (tensor_sum eq),
                                               total_seen :=
                                                  total_seen st3 + real (length (input_batch b)),
                                               test_acc := test_acc st3 @ [acc]\<rparr>)))))))"

fun validate_loop ::
  "('m, 'l, 'fs) engine \<Rightarrow> trainer \<Rightarrow> int list \<Rightarrow> ('m, 'fs) state \<Rightarrow> ('m, 'fs) outcome" where
  "validate_loop eng self [] st = Inr st"
| "validate_loop eng self (k # ks) st =
     (case validate_batch eng self k st of
        Inl e \<Rightarrow> Inl e
      | Inr st' \<Rightarrow> validate_loop eng self ks st')"

text \<open>
  Lines 267 to 295. The local \<^verbatim>\<open>running_val_loss\<close> is assigned and never read, so it is
  left out. The quotient of two floats raises on a zero divisor.
\<close>

definition validate_phase ::
  "('m, 'l, 'fs) engine \<Rightarrow> trainer \<Rightarrow> int \<Rightarrow> int \<Rightarrow> ('m, 'fs) state \<Rightarrow> ('m, 'fs) outcome" where
  "validate_phase eng self num_epochs epoch st0 =
     (let st1 = emit ModelEval (st0\<lparr>model := set_training eng False (model st0)\<rparr>);
          st2 = emit (Print Validating) st1;
          st3 = st2\<lparr>correct_prediction := 0, total_seen := 0\<rparr>
      in case validate_loop eng self (trange (batch_per_epoch_eval self)) st3 of
           Inl e \<Rightarrow> Inl e
         | Inr st4 \<Rightarrow>
             (if total_seen st4 = 0 then Inl (ZeroDivisionError, st4)
              else Inr (emit (Print (ValidationAccuracy epoch num_epochs
                                       (correct_prediction st4 / total_seen st4 * 100))) st4)))"

section \<open>The epoch loop\<close>

definition run_epoch ::
  "('m, 'l, 'fs) engine \<Rightarrow> trainer \<Rightarrow> 'l \<Rightarrow> optimizer \<Rightarrow> scheduler \<Rightarrow> int \<Rightarrow> int \<Rightarrow> ('m, 'fs) state \<Rightarrow> ('m, 'fs) outcome" where
  "run_epoch eng self criteration opt lr_scheduler num_epochs epoch st0 =
     (case train_phase eng self criteration opt num_epochs epoch st0 of
        Inl e \<Rightarrow> Inl e
      | Inr st1 \<Rightarrow>
          (case validate_phase eng self num_epochs epoch st1 of
             Inl e \<Rightarrow> Inl e
           | Inr st2 \<Rightarrow>
               Inr (emit SchedulerStep
                      (st2\<lparr>model := scheduler_step eng lr_scheduler (model st2)\<rparr>))))"

fun epoch_loop ::
  "('m, 'l, 'fs) engine \<Rightarrow> trainer \<Rightarrow> 'l \<Rightarrow> optimizer \<Rightarrow> scheduler \<Rightarrow> int \<Rightarrow> int list \<Rightarrow> ('m, 'fs) state \<Rightarrow> ('m, 'fs) outcome" where
  "epoch_loop eng self criteration opt lr_scheduler num_epochs [] st = Inr st"
| "epoch_loop eng self criteration opt lr_scheduler num_epochs (epoch # es) st =
     (case run_epoch eng self criteration opt lr_scheduler num_epochs epoch st of
        Inl e \<Rightarrow> Inl e
      | Inr st' \<Rightarrow> epoch_loop eng self criteration opt lr_scheduler num_epochs es st')"

section \<open>The checkpoint\<close>

text \<open>
  \<^verbatim>\<open>os.path.dirname\<close> of \<^verbatim>\<open>posixpath\<close>: the path up to and including its last slash,
  with the trailing slashes stripped unless nothing but slashes would remain.
\<close>

definition dirname :: "string \<Rightarrow> string" where
  "dirname p =
     (let head = rev (dropWhile (\<lambda>c. c \<noteq> CHR ''/'') (rev p))
      in if head \<noteq> [] \<and> (\<exists>c \<in> set head. c \<noteq> CHR ''/'')
         then rev (dropWhile (\<lambda>c. c = CHR ''/'') (rev head))
         else head)"

text \<open>
  Lines 302 to 312. \<^verbatim>\<open>os.path.dirname(None)\<close> raises a type error. The result is the
  value of \<^verbatim>\<open>self.model_save_path\<close> that line 315 returns.
\<close>

definition checkpoint ::
  "('m, 'l, 'fs) engine \<Rightarrow> ('m, 'fs) state \<Rightarrow> py_error \<times> ('m, 'fs) state + string \<times> ('m, 'fs) state" where
  "checkpoint eng st0 =
     (let st1 = emit (Print CheckingPath) st0 in
      case model_save_path st1 of
        None \<Rightarrow> Inl (TypeError, st1)
      | Some p \<Rightarrow>
          (if \<not> isdir eng (fs st1) (dirname p) then
             (let st2 = emit (Print CreatingDirectory) st1;
                  st3 = emit (Mkdir (dirname p)) st2
              in case mkdir eng (fs st3) (dirname p) of
                   Inl e \<Rightarrow> Inl (e, st3)
                 | Inr fs1 \<Rightarrow>
                     (let p' = dirname p @ ''/imd-sa.bin'';
                          st4 = st3\<lparr>fs := fs1, model_save_path := Some p'\<rparr>;
                          st5 = emit (Print (SavingModelAt (dirname p' @ ''/imdb-sa.bin''))) st4;
                          st6 = emit (Save p') st5
                      in case save eng (fs st6) (model st6) p' of
                           Inl e \<Rightarrow> Inl (e, st6)
                         | Inr fs2 \<Rightarrow> Inr (p', st6\<lparr>fs := fs2\<rparr>)))
           else
             (let st2 = emit (Print (SavingModelAt p)) st1;
                  st3 = emit (Save p) st2
              in case save eng (fs st3) (model st3) p of
                   Inl e \<Rightarrow> Inl (e, st3)
                 | Inr fs2 \<Rightarrow> Inr (p, st3\<lparr>fs := fs2\<rparr>))))"

section \<open>\<^verbatim>\<open>Trainer.train\<close>\<close>

text \<open>
  Lines 198 to 297: the three histories start empty and \<^verbatim>\<open>i\<close> starts unbound, the
  loss function, optimizer and scheduler are prepared, and the epochs run over
  \<^verbatim>\<open>range(1, num_epochs+1)\<close>.
\<close>

definition train_epochs ::
  "('m, 'l, 'fs) engine \<Rightarrow> trainer \<Rightarrow> int \<Rightarrow> real \<Rightarrow> real \<Rightarrow> real \<Rightarrow> ('m, 'fs) state \<Rightarrow> ('m, 'fs) outcome" where
  "train_epochs eng self num_epochs learning_rate wd gm st0 =
     (let st1 = st0\<lparr>train_loss := [], train_acc := [], test_acc := [], loop_i := None\<rparr>;
          st2 = emit (Print PreparingLossFn) st1
      in case prepare_lossfn_optims_lr_scheduler (nn eng) self learning_rate wd gm of
           Inl e \<Rightarrow> Inl (e, st2)
         | Inr (criteration, opt, lr_scheduler) \<Rightarrow>
             epoch_loop eng self criteration opt lr_scheduler num_epochs [1..num_epochs]
               (emit (Print InitialisedSuccessfully) st2))"

text \<open>
  The whole method: the epochs, then lines 299 to 315. The result is the returned tuple with
  the final state, or the exception with the state it was raised in.
\<close>

definition train ::
  "('m, 'l, 'fs) engine \<Rightarrow> trainer \<Rightarrow> int \<Rightarrow> real \<Rightarrow> real \<Rightarrow> real \<Rightarrow> ('m, 'fs) state \<Rightarrow>
     py_error \<times> ('m, 'fs) state +
     (pyfloat list \<times> pyfloat list \<times> pyfloat list \<times> string) \<times> ('m, 'fs) state" where
  "train eng self num_epochs learning_rate wd gm st0 =
     (case train_epochs eng self num_epochs learning_rate wd gm st0 of
        Inl e \<Rightarrow> Inl e
      | Inr st4 \<Rightarrow>
          (case checkpoint eng (emit (Print TrainingFinished) st4) of
             Inl e \<Rightarrow> Inl e
           | Inr (path, st5) \<Rightarrow>
               Inr ((train_loss st5, train_acc st5, test_acc st5, path), st5)))"

section \<open>Notions used to state the properties\<close>

text \<open>
  The number of examples of a batch whose predicted class, the arg-max of the scores that the
  model in state \<open>m\<close> gives, equals the label.
\<close>

definition correct_count :: "('m, 'l, 'fs) engine \<Rightarrow> 'm \<Rightarrow> batch \<Rightarrow> nat" where
  "correct_count eng m b =
     (case forward eng m (input_batch b) (mask_batch b) of
        Inl e \<Rightarrow> 0
      | Inr pred \<Rightarrow>
          (case argmax_dim1 (map (softmax eng) pred) of
             Inl e \<Rightarrow> 0
           | Inr ix \<Rightarrow> (case tensor_eq ix (label_batch b) of Inl e \<Rightarrow> 0 | Inr eq \<Rightarrow> tensor_sum eq)))"

text \<open>The calls of one training batch, and those of one whole epoch that prints \<open>x\<close> and \<open>y\<close>.\<close>

definition batch_events :: "event list" where
  "batch_events = [ZeroGrad, Forward, Backward, OptimizerStep]"

definition epoch_events :: "trainer \<Rightarrow> int \<Rightarrow> int \<Rightarrow> pyfloat \<times> real \<Rightarrow> event list" where
  "epoch_events self num_epochs epoch xy =
     [ModelTrain True, Print Training]
     @ concat (replicate (nat (batch_per_epoch_train self)) batch_events)
     @ [Print (AverageTrainingLoss epoch num_epochs (fst xy)), ModelEval, Print Validating]
     @ replicate (nat (batch_per_epoch_eval self)) Forward
     @ [Print (ValidationAccuracy epoch num_epochs (snd xy)), SchedulerStep]"

text \<open>
  Reading the result of \<^verbatim>\<open>train\<close>: the returned tuple if it returned, the exception
  if it raised, and the state it ended in either way.
\<close>

definition returned :: "'e \<times> 's + 'r \<times> 's \<Rightarrow> 'r option" where
  "returned out = (case out of Inl x \<Rightarrow> None | Inr x \<Rightarrow> Some (fst x))"

definition raised :: "'e \<times> 's + 'r \<times> 's \<Rightarrow> 'e option" where
  "raised out = (case out of Inl x \<Rightarrow> Some (fst x) | Inr x \<Rightarrow> None)"

definition final_state :: "'e \<times> 's + 'r \<times> 's \<Rightarrow> 's" where
  "final_state out = (case out of Inl x \<Rightarrow> snd x | Inr x \<Rightarrow> snd x)"

text \<open>The state in which a loop body, a loop or a phase ended, normally or not.\<close>

definition end_state :: "('m, 'fs) outcome \<Rightarrow> ('m, 'fs) state" where
  "end_state out = (case out of Inl x \<Rightarrow> snd x | Inr st \<Rightarrow> st)"

text \<open>The exception a loop body, a loop or a phase raised, if any.\<close>

definition error_of :: "('m, 'fs) outcome \<Rightarrow> py_error option" where
  "error_of out = (case out of Inl x \<Rightarrow> Some (fst x) | Inr st \<Rightarrow> None)"

text \<open>
  A stretch of the run from \<open>st\<close> to \<open>st'\<close> that adds calls to the trace, none of them a
  step of the scheduler, and leaves the file system and the save path alone.
\<close>

definition quiet :: "('m, 'fs) state \<Rightarrow> ('m, 'fs) state \<Rightarrow> bool" where
  "quiet st st' \<longleftrightarrow>
     (\<exists>T. trace st' = trace st @ T \<and> SchedulerStep \<notin> set T) \<and>
     fs st' = fs st \<and> model_save_path st' = model_save_path st"

section \<open>A small instance\<close>

text \<open>
  The loss classes of \<^verbatim>\<open>torch.nn\<close>, each standing for the object its constructor
  yields. The module has no attribute \<^verbatim>\<open>BCE\<close>.
\<close>

definition torch_nn :: "string \<Rightarrow> string option" where
  "torch_nn name =
     (if name \<in> set [''BCELoss'', ''BCEWithLogitsLoss'', ''CrossEntropyLoss'', ''NLLLoss'',
                       ''MSELoss'', ''L1Loss'']
      then Some name else None)"

text \<open>
  A toy engine: the scores of an example are its token ids, the loss of a batch is its number
  of examples, the model state counts the optimizer steps, and the file system is the list of
  its directories with the list of its files. Creating a directory fails on the empty path and
  on a directory that exists.
\<close>

definition demo_engine :: "(nat, string, string list \<times> string list) engine" where
  "demo_engine =
     \<lparr>nn = torch_nn,
      softmax = softmax_row,
      set_training = (\<lambda>flag m. m),
      forward = (\<lambda>m inp mask. Inr (map (map real_of_int) inp)),
      criterion = (\<lambda>l y_pred label. Inr (Val (real (length y_pred)))),
      zero_grad = (\<lambda>opt m. m),
      backward = (\<lambda>l m b. m),
      optimizer_step = (\<lambda>opt m. Suc m),
      scheduler_step = (\<lambda>sch m. m),
      isdir = (\<lambda>fs d. d \<in> set (fst fs)),
      mkdir = (\<lambda>fs d. if d = [] \<or> d \<in> set (fst fs) then Inl OSError
                      else Inr (d # fst fs, snd fs)),
      save = (\<lambda>fs m p. Inr (fst fs, p # snd fs))\<rparr>"

definition demo_trainer :: trainer where
  "demo_trainer =
     \<lparr>batch_per_epoch_train = 2, batch_per_epoch_eval = 2, criterator = ''cel'',
      optimizer_type = ''adamw'', device = Some ''cpu''\<rparr>"

text \<open>One example, predicted right; three examples, all predicted wrong.\<close>

definition batch_a :: batch where
  "batch_a = \<lparr>input_batch = [[0, 1]], label_batch = [1], mask_batch = [[1, 1]]\<rparr>"

definition batch_b :: batch where
  "batch_b = \<lparr>input_batch = [[2, 0], [3, 1], [5, 4]], label_batch = [1, 1, 1],
              mask_batch = [[1, 1], [1, 1], [1, 1]]\<rparr>"

definition demo_state :: "(nat, string list \<times> string list) state" where
  "demo_state =
     \<lparr>model = 0, fs = ([], []), train_generator = [batch_a, batch_b],
      test_generator = [batch_a, batch_b], model_save_path = Some ''ckpt/model.bin'',
      trace = [], train_loss = [], train_acc = [], test_acc = [], loop_i = None,
      running_train_loss = Val 0, correct_prediction = 0, total_seen = 0\<rparr>"

section \<open>Properties of \<^verbatim>\<open>accuracy\<close>\<close>

lemma argmax_row_less: "xs \<noteq> [] \<Longrightarrow> argmax_row xs < length xs"
  by (induction xs rule: argmax_row.induct) (auto simp: Let_def)

lemma argmax_row_map_strict_mono:
  fixes g :: "real \<Rightarrow> real"
  assumes "strict_mono g"
  shows "argmax_row (map g xs) = argmax_row xs"
proof (induction xs rule: argmax_row.induct)
  case 1
  then show ?case by simp
next
  case (2 x)
  then show ?case by simp
next
  case (3 x y ys)
  have j: "argmax_row (y # ys) < length (y # ys)"
    by (rule argmax_row_less) simp
  have "map g (y # ys) ! argmax_row (y # ys) = g ((y # ys) ! argmax_row (y # ys))"
    using j by (rule nth_map)
  with 3 show ?case
    using assms by (simp add: Let_def strict_mono_less del: nth_Cons_Suc)
qed

lemma sum_exp_pos: "row \<noteq> [] \<Longrightarrow> 0 < (\<Sum>y\<leftarrow>row. exp (y::real))"
proof (cases row)
  case Nil
  then show "row \<noteq> [] \<Longrightarrow> ?thesis" by simp
next
  case (Cons a as)
  have "0 \<le> (\<Sum>y\<leftarrow>as. exp y)" by (rule sum_list_nonneg) auto
  moreover have "0 < exp a" by simp
  ultimately have "0 < exp a + (\<Sum>y\<leftarrow>as. exp y)" by (simp add: add_pos_nonneg)
  then show ?thesis using Cons by simp
qed

lemma softmax_row_eq_Nil [simp]: "softmax_row row = [] \<longleftrightarrow> row = []"
  by (simp add: softmax_row_def)

lemma Nil_eq_softmax_row [simp]: "[] = softmax_row row \<longleftrightarrow> row = []"
  by (simp add: softmax_row_def)

lemma length_softmax_row [simp]: "length (softmax_row row) = length row"
  by (simp add: softmax_row_def)

lemma argmax_row_softmax [simp]: "argmax_row (softmax_row row) = argmax_row row"
proof (cases "row = []")
  case True
  then show ?thesis by (simp add: softmax_row_def)
next
  case False
  then have pos: "0 < (\<Sum>y\<leftarrow>row. exp y)" by (rule sum_exp_pos)
  have "strict_mono (\<lambda>x::real. exp x / (\<Sum>y\<leftarrow>row. exp y))"
    using pos by (simp add: strict_mono_def divide_strict_right_mono)
  then show ?thesis
    unfolding softmax_row_def by (rule argmax_row_map_strict_mono)
qed

lemma tensor_sum_le: "tensor_sum bs \<le> length bs"
  by (simp add: tensor_sum_def)

lemma accuracy_argmax_cong:
  assumes "\<forall>row \<in> set y_pred. (sm row = [] \<longleftrightarrow> sm' (f row) = []) \<and> argmax_row (sm' (f row)) = argmax_row (sm row)"
  shows "accuracy sm' (map f y_pred) y_target = accuracy sm y_pred y_target"
proof -
  have "([] \<in> (\<lambda>row. sm' (f row)) ` set y_pred) = ([] \<in> sm ` set y_pred)"
  proof
    assume "[] \<in> (\<lambda>row. sm' (f row)) ` set y_pred"
    then obtain row where "row \<in> set y_pred" "sm' (f row) = []" by force
    with assms have "row \<in> set y_pred" "sm row = []" by auto
    then show "[] \<in> sm ` set y_pred" by force
  next
    assume "[] \<in> sm ` set y_pred"
    then obtain row where "row \<in> set y_pred" "sm row = []" by force
    with assms have "row \<in> set y_pred" "sm' (f row) = []" by auto
    then show "[] \<in> (\<lambda>row. sm' (f row)) ` set y_pred" by force
  qed
  moreover have "map (\<lambda>row. argmax_row (sm' (f row))) y_pred = map (\<lambda>row. argmax_row (sm row)) y_pred"
    using assms by simp
  ultimately have "argmax_dim1 (map sm' (map f y_pred)) = argmax_dim1 (map sm y_pred)"
    by (simp add: argmax_dim1_def comp_def)
  then show ?thesis by (simp add: accuracy_def)
qed


lemma float_mean_range:
  "bs \<noteq> [] \<Longrightarrow> \<exists>r. float_mean bs = Val r \<and> 0 \<le> r \<and> r \<le> 1"
  using tensor_sum_le [of bs] by (simp add: float_mean_def divide_le_eq)

lemma tensor_eq_nonempty:
  "tensor_eq a b = Inr eq \<Longrightarrow> a \<noteq> [] \<Longrightarrow> b \<noteq> [] \<Longrightarrow> eq \<noteq> []"
  by (auto simp: tensor_eq_def split: if_splits)

lemma accuracy_Inr_range:
  assumes "accuracy sm y_pred y_target = Inr a" and "y_pred \<noteq> []" and "y_target \<noteq> []"
  shows "\<exists>r. a = Val r \<and> 0 \<le> r \<and> r \<le> 1"
proof -
  from assms(1) obtain ix eq where ix: "argmax_dim1 (map sm y_pred) = Inr ix"
    and eq: "tensor_eq ix y_target = Inr eq" and a: "a = float_mean eq"
    by (auto simp: accuracy_def split: sum.splits)
  from ix assms(2) have "ix \<noteq> []" by (auto simp: argmax_dim1_def split: if_splits)
  have "eq \<noteq> []" by (rule tensor_eq_nonempty [OF eq \<open>ix \<noteq> []\<close> assms(3)])
  then show ?thesis unfolding a using float_mean_range by metis
qed

lemma accuracy_returns:
  assumes "[] \<notin> set (map sm y_pred)" and "length y_target = length y_pred"
  shows "\<exists>a. accuracy sm y_pred y_target = Inr a"
  using assms by (simp add: accuracy_def argmax_dim1_def tensor_eq_def)

text \<open>
  Claim C8, as amended. Assume that the softmax keeps the arg-max of every non-empty row, as
  the exact softmax of the spec does. For a prediction batch with at least one row, every row
  of at least one class, and a target batch of the same length, \<open>accuracy\<close> returns a value
  between 0 and 1. Its result does not change under a transform of the rows that keeps the
  arg-max of every row, in particular under a strictly increasing function applied to every
  score, and it is the same with and without the softmax in front of the arg-max. For a target
  batch of any other non-empty length, a value that is returned still lies between 0 and 1.
\<close>

theorem accuracy_range_and_argmax_invariance:
  assumes sm: "\<forall>row. row \<noteq> [] \<longrightarrow> sm row \<noteq> [] \<and> argmax_row (sm row) = argmax_row row"
    and ne: "y_pred \<noteq> []"
    and rows: "[] \<notin> set y_pred"
    and len: "length y_target = length y_pred"
  shows "(\<exists>a. accuracy sm y_pred y_target = Inr (Val a) \<and> 0 \<le> a \<and> a \<le> 1) \<and>
         (\<forall>f. (\<forall>row \<in> set y_pred. f row \<noteq> [] \<and> argmax_row (f row) = argmax_row row) \<longrightarrow>
                accuracy sm (map f y_pred) y_target = accuracy sm y_pred y_target) \<and>
         (\<forall>g. strict_mono g \<longrightarrow>
                accuracy sm (map (map g) y_pred) y_target = accuracy sm y_pred y_target) \<and>
         accuracy (\<lambda>row. row) y_pred y_target = accuracy sm y_pred y_target \<and>
         (\<forall>y a. y \<noteq> [] \<longrightarrow> accuracy sm y_pred y = Inr a \<longrightarrow>
                  (\<exists>r. a = Val r \<and> 0 \<le> r \<and> r \<le> 1))"
proof (intro conjI allI impI)
  have "[] \<notin> set (map sm y_pred)"
  proof
    assume "[] \<in> set (map sm y_pred)"
    then obtain row where r: "row \<in> set y_pred" "sm row = []" by force
    then have "row \<noteq> []" using rows by auto
    with sm r show False by blast
  qed
  then obtain a where a: "accuracy sm y_pred y_target = Inr a"
    using accuracy_returns len by blast
  moreover have "y_target \<noteq> []" using ne len by auto
  ultimately obtain r where "a = Val r" "0 \<le> r" "r \<le> 1"
    using accuracy_Inr_range ne by blast
  with a show "\<exists>a. accuracy sm y_pred y_target = Inr (Val a) \<and> 0 \<le> a \<and> a \<le> 1" by blast
next
  fix f assume f: "\<forall>row \<in> set y_pred. f row \<noteq> [] \<and> argmax_row (f row) = argmax_row row"
  show "accuracy sm (map f y_pred) y_target = accuracy sm y_pred y_target"
  proof (rule accuracy_argmax_cong, rule ballI)
    fix row assume r: "row \<in> set y_pred"
    then have "row \<noteq> []" using rows by auto
    moreover have "f row \<noteq> []" "argmax_row (f row) = argmax_row row" using f r by auto
    ultimately show "(sm row = []) = (sm (f row) = []) \<and> argmax_row (sm (f row)) = argmax_row (sm row)"
      using sm by simp
  qed
next
  fix g :: "real \<Rightarrow> real" assume g: "strict_mono g"
  show "accuracy sm (map (map g) y_pred) y_target = accuracy sm y_pred y_target"
  proof (rule accuracy_argmax_cong, rule ballI)
    fix row assume r: "row \<in> set y_pred"
    then have "row \<noteq> []" using rows by auto
    moreover have "map g row \<noteq> []" using \<open>row \<noteq> []\<close> by simp
    moreover have "argmax_row (map g row) = argmax_row row"
      using g by (rule argmax_row_map_strict_mono)
    ultimately show "(sm row = []) = (sm (map g row) = []) \<and> argmax_row (sm (map g row)) = argmax_row (sm row)"
      using sm by simp
  qed
next
  have "accuracy (\<lambda>row. row) (map (\<lambda>row. row) y_pred) y_target = accuracy sm y_pred y_target"
  proof (rule accuracy_argmax_cong, rule ballI)
    fix row assume r: "row \<in> set y_pred"
    then have "row \<noteq> []" using rows by auto
    then show "(sm row = []) = (row = []) \<and> argmax_row row = argmax_row (sm row)"
      using sm by simp
  qed
  then show "accuracy (\<lambda>row. row) y_pred y_target = accuracy sm y_pred y_target" by simp
next
  fix y a assume "y \<noteq> []" "accuracy sm y_pred y = Inr a"
  then show "\<exists>r. a = Val r \<and> 0 \<le> r \<and> r \<le> 1"
    using accuracy_Inr_range ne by blast
qed

text \<open>The theorem at the softmax of the spec, two examples and two classes.\<close>

theorem accuracy_range_and_argmax_invariance_witness:
  "accuracy softmax_row [[1, 2], [3, 0 :: real]] [1, 1] = Inr (Val (1 / 2)) \<and>
   accuracy softmax_row (map (map (\<lambda>x. 2 * x + 1)) [[1, 2], [3, 0 :: real]]) [1, 1] = Inr (Val (1 / 2)) \<and>
   accuracy (\<lambda>row. row) [[1, 2], [3, 0 :: real]] [1, 1] = Inr (Val (1 / 2))"
proof -
  have sm: "\<forall>row. row \<noteq> [] \<longrightarrow> softmax_row row \<noteq> [] \<and> argmax_row (softmax_row row) = argmax_row row"
    by simp
  have g: "strict_mono (\<lambda>x::real. 2 * x + 1)" by (simp add: strict_mono_def)
  have v: "accuracy (\<lambda>row. row) [[1, 2], [3, 0 :: real]] [1, 1] = Inr (Val (1 / 2))"
    by (simp add: accuracy_def argmax_dim1_def tensor_eq_def float_mean_def tensor_sum_def)
  have t: "(\<forall>g. strict_mono g \<longrightarrow>
              accuracy softmax_row (map (map g) [[1, 2], [3, 0 :: real]]) [1, 1] =
              accuracy softmax_row [[1, 2], [3, 0 :: real]] [1, 1]) \<and>
           accuracy (\<lambda>row. row) [[1, 2], [3, 0 :: real]] [1, 1] =
           accuracy softmax_row [[1, 2], [3, 0 :: real]] [1, 1]"
    using accuracy_range_and_argmax_invariance [OF sm, of "[[1, 2], [3, 0 :: real]]" "[1, 1]"]
    by simp
  then have "accuracy softmax_row (map (map (\<lambda>x. 2 * x + 1)) [[1, 2], [3, 0 :: real]]) [1, 1] =
             accuracy softmax_row [[1, 2], [3, 0 :: real]] [1, 1]"
    using g by blast
  with t v show ?thesis by simp
qed

text \<open>
  Claim C8 as first stated, for every target batch and every batch of at least one row, fails:
  three predictions against two targets raise, one prediction against no target gives
  not-a-number, and a row of no class raises.
\<close>

theorem accuracy_counterexample:
  "accuracy softmax_row [[1, 2], [3, 0], [0, 1]] [1, 1] = Inl RuntimeError \<and>
   accuracy softmax_row [[1, 2]] [] = Inr NaN \<and>
   accuracy softmax_row [[]] [0] = Inl IndexError"
  by (simp add: accuracy_def argmax_dim1_def tensor_eq_def float_mean_def)

section \<open>What a completed loop has done\<close>

text \<open>
  For each loop body, loop and phase that returns normally: what it appended to the histories
  and to the trace, and what it left alone.
\<close>

lemma length_trange [simp]: "length (trange n) = nat n"
  by (simp add: trange_def)

lemma trange_one [simp]: "trange 1 = [0]"
  by (simp add: trange_def upto.simps)

lemma train_batch_Inr:
  assumes "train_batch eng self c opt k st = Inr st'"
  shows "\<exists>b loss acc.
           train_generator st = b # train_generator st' \<and>
           train_loss st' = train_loss st @ [loss] \<and>
           train_acc st' = train_acc st @ [acc] \<and>
           running_train_loss st' = fadd (running_train_loss st) loss \<and>
           test_acc st' = test_acc st \<and>
           trace st' = trace st @ batch_events \<and>
           loop_i st' = Some k \<and>
           fs st' = fs st \<and>
           model_save_path st' = model_save_path st \<and>
           test_generator st' = test_generator st"
  using assms
  by (auto simp: train_batch_def emit_def batch_events_def Let_def
           split: list.splits option.splits sum.splits)

lemma train_loop_Inr:
  "train_loop eng self c opt ks st = Inr st' \<Longrightarrow>
     length (train_generator st) = length ks + length (train_generator st') \<and>
     (\<exists>new. train_loss st' = train_loss st @ new \<and> length new = length ks) \<and>
     (\<exists>new. train_acc st' = train_acc st @ new \<and> length new = length ks) \<and>
     test_acc st' = test_acc st \<and>
     trace st' = trace st @ concat (replicate (length ks) batch_events) \<and>
     loop_i st' = (if ks = [] then loop_i st else Some (last ks)) \<and>
     fs st' = fs st \<and>
     model_save_path st' = model_save_path st \<and>
     test_generator st' = test_generator st"
proof (induction ks arbitrary: st)
  case Nil
  then show ?case by simp
next
  case (Cons k ks)
  from Cons.prems obtain st1 where
    b: "train_batch eng self c opt k st = Inr st1" and
    l: "train_loop eng self c opt ks st1 = Inr st'"
    by (auto split: sum.splits)
  from train_batch_Inr [OF b] obtain b0 loss acc where f:
    "train_generator st = b0 # train_generator st1"
    "train_loss st1 = train_loss st @ [loss]"
    "train_acc st1 = train_acc st @ [acc]"
    "test_acc st1 = test_acc st"
    "trace st1 = trace st @ batch_events"
    "loop_i st1 = Some k"
    "fs st1 = fs st"
    "model_save_path st1 = model_save_path st"
    "test_generator st1 = test_generator st"
    by blast
  note ih = Cons.IH [OF l]
  from ih obtain n1 where n1: "train_loss st' = train_loss st1 @ n1" "length n1 = length ks"
    by blast
  from ih obtain n2 where n2: "train_acc st' = train_acc st1 @ n2" "length n2 = length ks"
    by blast
  have "train_loss st' = train_loss st @ (loss # n1)" "length (loss # n1) = length (k # ks)"
    using n1 f by simp_all
  then have A: "\<exists>new. train_loss st' = train_loss st @ new \<and> length new = length (k # ks)"
    by blast
  have "train_acc st' = train_acc st @ (acc # n2)" "length (acc # n2) = length (k # ks)"
    using n2 f by simp_all
  then have B: "\<exists>new. train_acc st' = train_acc st @ new \<and> length new = length (k # ks)"
    by blast
  have C: "length (train_generator st) = length (k # ks) + length (train_generator st')"
    using ih f by simp
  have D: "trace st' = trace st @ concat (replicate (length (k # ks)) batch_events)"
    using ih f by simp
  have E: "loop_i st' = (if k # ks = [] then loop_i st else Some (last (k # ks)))"
    using ih f by simp
  have F: "test_acc st' = test_acc st" "fs st' = fs st"
    "model_save_path st' = model_save_path st" "test_generator st' = test_generator st"
    using ih f by simp_all
  from A B C D E F show ?case by blast
qed

lemma validate_batch_Inr:
  assumes "validate_batch eng self k st = Inr st'"
  shows "\<exists>b acc.
           test_generator st = b # test_generator st' \<and>
           test_acc st' = test_acc st @ [acc] \<and>
           correct_prediction st' = correct_prediction st + real (correct_count eng (model st) b) \<and>
           total_seen st' = total_seen st + real (length (input_batch b)) \<and>
           train_loss st' = train_loss st \<and>
           train_acc st' = train_acc st \<and>
           trace st' = trace st @ [Forward] \<and>
           loop_i st' = Some k \<and>
           model st' = model st \<and>
           fs st' = fs st \<and>
           model_save_path st' = model_save_path st \<and>
           train_generator st' = train_generator st"
  using assms
  by (auto simp: validate_batch_def emit_def correct_count_def Let_def
           split: list.splits option.splits sum.splits)

lemma validate_loop_Inr:
  "validate_loop eng self ks st = Inr st' \<Longrightarrow>
     length ks \<le> length (test_generator st) \<and>
     test_generator st' = drop (length ks) (test_generator st) \<and>
     (\<exists>new. test_acc st' = test_acc st @ new \<and> length new = length ks) \<and>
     correct_prediction st' = correct_prediction st +
        real (\<Sum>b\<leftarrow>take (length ks) (test_generator st). correct_count eng (model st) b) \<and>
     total_seen st' = total_seen st +
        real (\<Sum>b\<leftarrow>take (length ks) (test_generator st). length (input_batch b)) \<and>
     train_loss st' = train_loss st \<and>
     train_acc st' = train_acc st \<and>
     trace st' = trace st @ replicate (length ks) Forward \<and>
     loop_i st' = (if ks = [] then loop_i st else Some (last ks)) \<and>
     model st' = model st \<and>
     fs st' = fs st \<and>
     model_save_path st' = model_save_path st \<and>
     train_generator st' = train_generator st"
proof (induction ks arbitrary: st)
  case Nil
  then show ?case by simp
next
  case (Cons k ks)
  from Cons.prems obtain st1 where
    b: "validate_batch eng self k st = Inr st1" and
    l: "validate_loop eng self ks st1 = Inr st'"
    by (auto split: sum.splits)
  from validate_batch_Inr [OF b] obtain b0 acc where f:
    "test_generator st = b0 # test_generator st1"
    "test_acc st1 = test_acc st @ [acc]"
    "correct_prediction st1 = correct_prediction st + real (correct_count eng (model st) b0)"
    "total_seen st1 = total_seen st + real (length (input_batch b0))"
    "train_loss st1 = train_loss st"
    "train_acc st1 = train_acc st"
    "trace st1 = trace st @ [Forward]"
    "loop_i st1 = Some k"
    "model st1 = model st"
    "fs st1 = fs st"
    "model_save_path st1 = model_save_path st"
    "train_generator st1 = train_generator st"
    by blast
  note ih = Cons.IH [OF l]
  from ih obtain n1 where n1: "test_acc st' = test_acc st1 @ n1" "length n1 = length ks"
    by blast
  have "test_acc st' = test_acc st @ (acc # n1)" "length (acc # n1) = length (k # ks)"
    using n1 f by simp_all
  then have A: "\<exists>new. test_acc st' = test_acc st @ new \<and> length new = length (k # ks)"
    by blast
  have B: "length (k # ks) \<le> length (test_generator st)"
    "test_generator st' = drop (length (k # ks)) (test_generator st)"
    using ih f by simp_all
  have C: "correct_prediction st' = correct_prediction st +
        real (\<Sum>b\<leftarrow>take (length (k # ks)) (test_generator st). correct_count eng (model st) b)"
    using ih f by simp
  have D: "total_seen st' = total_seen st +
        real (\<Sum>b\<leftarrow>take (length (k # ks)) (test_generator st). length (input_batch b))"
    using ih f by simp
  have E: "trace st' = trace st @ replicate (length (k # ks)) Forward"
    using ih f by (simp add: replicate_append_same)
  have F: "loop_i st' = (if k # ks = [] then loop_i st else Some (last (k # ks)))"
    using ih f by simp
  have G: "train_loss st' = train_loss st" "train_acc st' = train_acc st" "model st' = model st"
    "fs st' = fs st" "model_save_path st' = model_save_path st"
    "train_generator st' = train_generator st"
    using ih f by simp_all
  from A B C D E F G show ?case by blast
qed

lemma trange_eq_Nil [simp]: "trange n = [] \<longleftrightarrow> n \<le> 0"
  by (auto simp: trange_def)

lemma last_trange: "0 < n \<Longrightarrow> last (trange n) = n - 1"
proof -
  assume "0 < n"
  then have "[0..n - 1] = [0..n - 1 - 1] @ [n - 1]" by (intro upto_rec2) simp
  then show ?thesis by (simp add: trange_def)
qed

lemma train_phase_Inr:
  assumes "train_phase eng self c opt n e st = Inr st'"
  shows "(\<exists>new. train_loss st' = train_loss st @ new \<and>
                length new = nat (batch_per_epoch_train self)) \<and>
         (\<exists>new. train_acc st' = train_acc st @ new \<and>
                length new = nat (batch_per_epoch_train self)) \<and>
         test_acc st' = test_acc st \<and>
         (\<exists>x. trace st' = trace st @ [ModelTrain True, Print Training]
                  @ concat (replicate (nat (batch_per_epoch_train self)) batch_events)
                  @ [Print (AverageTrainingLoss e n x)]) \<and>
         (loop_i st = None \<longrightarrow> 2 \<le> batch_per_epoch_train self) \<and>
         fs st' = fs st \<and>
         model_save_path st' = model_save_path st \<and>
         test_generator st' = test_generator st"
proof -
  define st3 where "st3 = emit (Print Training) (emit (ModelTrain True)
     (st\<lparr>running_train_loss := Val 0,
         model := set_training eng True (model (st\<lparr>running_train_loss := Val 0\<rparr>))\<rparr>))"
  from assms obtain st4 k avg where
    l: "train_loop eng self c opt (trange (batch_per_epoch_train self)) st3 = Inr st4" and
    i: "loop_i st4 = Some k" and
    d: "fdiv_int (running_train_loss st4) k = Inr avg" and
    r: "st' = emit (Print (AverageTrainingLoss e n avg)) st4"
    unfolding train_phase_def st3_def Let_def
    by (auto split: sum.splits option.splits)
  have k0: "k \<noteq> 0" using d by (auto split: if_splits)
  note f = train_loop_Inr [OF l]
  have s3: "train_loss st3 = train_loss st" "train_acc st3 = train_acc st"
    "test_acc st3 = test_acc st" "trace st3 = trace st @ [ModelTrain True, Print Training]"
    "loop_i st3 = loop_i st" "fs st3 = fs st" "model_save_path st3 = model_save_path st"
    "test_generator st3 = test_generator st"
    by (simp_all add: st3_def emit_def)
  have s': "train_loss st' = train_loss st4" "train_acc st' = train_acc st4"
    "test_acc st' = test_acc st4" "trace st' = trace st4 @ [Print (AverageTrainingLoss e n avg)]"
    "fs st' = fs st4" "model_save_path st' = model_save_path st4"
    "test_generator st' = test_generator st4"
    by (simp_all add: r emit_def)
  have A: "\<exists>new. train_loss st' = train_loss st @ new \<and>
                length new = nat (batch_per_epoch_train self)"
    using f s3 s' by simp
  have B: "\<exists>new. train_acc st' = train_acc st @ new \<and>
                length new = nat (batch_per_epoch_train self)"
    using f s3 s' by simp
  have C: "trace st' = trace st @ [ModelTrain True, Print Training]
                  @ concat (replicate (nat (batch_per_epoch_train self)) batch_events)
                  @ [Print (AverageTrainingLoss e n avg)]"
    using f s3 s' by simp
  have D: "loop_i st = None \<longrightarrow> 2 \<le> batch_per_epoch_train self"
  proof
    assume none: "loop_i st = None"
    have li: "loop_i st4 = (if trange (batch_per_epoch_train self) = [] then loop_i st3
                            else Some (last (trange (batch_per_epoch_train self))))"
      using f by blast
    have pos: "0 < batch_per_epoch_train self"
    proof (rule ccontr)
      assume "\<not> 0 < batch_per_epoch_train self"
      then have "loop_i st4 = None" using li none s3 by simp
      with i show False by simp
    qed
    then have "k = batch_per_epoch_train self - 1"
      using li i by (simp add: last_trange)
    with k0 pos show "2 \<le> batch_per_epoch_train self" by simp
  qed
  have E: "test_acc st' = test_acc st" "fs st' = fs st"
    "model_save_path st' = model_save_path st" "test_generator st' = test_generator st"
    using f s3 s' by simp_all
  from A B C D E show ?thesis by blast
qed

lemma validate_phase_Inr:
  assumes "validate_phase eng self n e st = Inr st'"
  shows "(\<exists>new. test_acc st' = test_acc st @ new \<and>
                length new = nat (batch_per_epoch_eval self)) \<and>
         train_loss st' = train_loss st \<and>
         train_acc st' = train_acc st \<and>
         nat (batch_per_epoch_eval self) \<le> length (test_generator st) \<and>
         correct_prediction st' =
           real (\<Sum>b\<leftarrow>take (nat (batch_per_epoch_eval self)) (test_generator st).
                   correct_count eng (set_training eng False (model st)) b) \<and>
         total_seen st' =
           real (\<Sum>b\<leftarrow>take (nat (batch_per_epoch_eval self)) (test_generator st).
                   length (input_batch b)) \<and>
         total_seen st' \<noteq> 0 \<and>
         trace st' = trace st @ [ModelEval, Print Validating]
                  @ replicate (nat (batch_per_epoch_eval self)) Forward
                  @ [Print (ValidationAccuracy e n
                             (correct_prediction st' / total_seen st' * 100))] \<and>
         1 \<le> batch_per_epoch_eval self \<and>
         fs st' = fs st \<and>
         model_save_path st' = model_save_path st \<and>
         train_generator st' = train_generator st"
proof -
  define st3 where "st3 = (emit (Print Validating) (emit ModelEval
     (st\<lparr>model := set_training eng False (model st)\<rparr>)))\<lparr>correct_prediction := 0, total_seen := 0\<rparr>"
  from assms obtain st4 where
    l: "validate_loop eng self (trange (batch_per_epoch_eval self)) st3 = Inr st4" and
    t: "total_seen st4 \<noteq> 0" and
    r: "st' = emit (Print (ValidationAccuracy e n
                             (correct_prediction st4 / total_seen st4 * 100))) st4"
    unfolding validate_phase_def st3_def Let_def
    by (auto split: sum.splits if_splits)
  note f = validate_loop_Inr [OF l]
  have s3: "train_loss st3 = train_loss st" "train_acc st3 = train_acc st"
    "test_acc st3 = test_acc st" "trace st3 = trace st @ [ModelEval, Print Validating]"
    "fs st3 = fs st" "model_save_path st3 = model_save_path st"
    "test_generator st3 = test_generator st" "train_generator st3 = train_generator st"
    "correct_prediction st3 = 0" "total_seen st3 = 0"
    "model st3 = set_training eng False (model st)"
    by (simp_all add: st3_def emit_def)
  have s': "train_loss st' = train_loss st4" "train_acc st' = train_acc st4"
    "test_acc st' = test_acc st4"
    "trace st' = trace st4 @ [Print (ValidationAccuracy e n
                             (correct_prediction st4 / total_seen st4 * 100))]"
    "fs st' = fs st4" "model_save_path st' = model_save_path st4"
    "train_generator st' = train_generator st4"
    "correct_prediction st' = correct_prediction st4" "total_seen st' = total_seen st4"
    by (simp_all add: r emit_def)
  have A: "\<exists>new. test_acc st' = test_acc st @ new \<and>
                length new = nat (batch_per_epoch_eval self)"
    using f s3 s' by simp
  have B: "nat (batch_per_epoch_eval self) \<le> length (test_generator st)"
    using f s3 by simp
  have C: "correct_prediction st' =
           real (\<Sum>b\<leftarrow>take (nat (batch_per_epoch_eval self)) (test_generator st).
                   correct_count eng (set_training eng False (model st)) b)"
    using f s3 s' by simp
  have D: "total_seen st' =
           real (\<Sum>b\<leftarrow>take (nat (batch_per_epoch_eval self)) (test_generator st).
                   length (input_batch b))"
    using f s3 s' by simp
  have E: "trace st' = trace st @ [ModelEval, Print Validating]
                  @ replicate (nat (batch_per_epoch_eval self)) Forward
                  @ [Print (ValidationAccuracy e n
                             (correct_prediction st' / total_seen st' * 100))]"
    using f s3 s' by simp
  have F: "1 \<le> batch_per_epoch_eval self"
  proof (rule ccontr)
    assume "\<not> 1 \<le> batch_per_epoch_eval self"
    then have "nat (batch_per_epoch_eval self) = 0" by simp
    with D have "total_seen st' = 0" by simp
    with t s' show False by simp
  qed
  have G: "train_loss st' = train_loss st" "train_acc st' = train_acc st"
    "fs st' = fs st" "model_save_path st' = model_save_path st"
    "train_generator st' = train_generator st" "total_seen st' \<noteq> 0"
    using f s3 s' t by simp_all
  from A B C D E F G show ?thesis by blast
qed

lemma run_epoch_Inr:
  assumes "run_epoch eng self c opt sch n e st = Inr st'"
  shows "(\<exists>new. train_loss st' = train_loss st @ new \<and>
                length new = nat (batch_per_epoch_train self)) \<and>
         (\<exists>new. train_acc st' = train_acc st @ new \<and>
                length new = nat (batch_per_epoch_train self)) \<and>
         (\<exists>new. test_acc st' = test_acc st @ new \<and>
                length new = nat (batch_per_epoch_eval self)) \<and>
         (\<exists>xy. trace st' = trace st @ epoch_events self n e xy) \<and>
         (loop_i st = None \<longrightarrow> 2 \<le> batch_per_epoch_train self) \<and>
         1 \<le> batch_per_epoch_eval self \<and>
         fs st' = fs st \<and>
         model_save_path st' = model_save_path st"
proof -
  from assms obtain st1 st2 where
    t: "train_phase eng self c opt n e st = Inr st1" and
    v: "validate_phase eng self n e st1 = Inr st2" and
    r: "st' = emit SchedulerStep (st2\<lparr>model := scheduler_step eng sch (model st2)\<rparr>)"
    unfolding run_epoch_def by (auto split: sum.splits)
  note ft = train_phase_Inr [OF t]
  note fv = validate_phase_Inr [OF v]
  have s': "train_loss st' = train_loss st2" "train_acc st' = train_acc st2"
    "test_acc st' = test_acc st2" "trace st' = trace st2 @ [SchedulerStep]"
    "fs st' = fs st2" "model_save_path st' = model_save_path st2"
    by (simp_all add: r emit_def)
  from ft obtain x where x: "trace st1 = trace st @ [ModelTrain True, Print Training]
                  @ concat (replicate (nat (batch_per_epoch_train self)) batch_events)
                  @ [Print (AverageTrainingLoss e n x)]"
    by blast
  have "trace st' = trace st @ epoch_events self n e
                      (x, correct_prediction st2 / total_seen st2 * 100)"
    using fv x s' by (simp add: epoch_events_def)
  then have A: "\<exists>xy. trace st' = trace st @ epoch_events self n e xy" by blast
  have B: "\<exists>new. train_loss st' = train_loss st @ new \<and>
                length new = nat (batch_per_epoch_train self)"
    using ft fv s' by simp
  have C: "\<exists>new. train_acc st' = train_acc st @ new \<and>
                length new = nat (batch_per_epoch_train self)"
    using ft fv s' by simp
  have D: "\<exists>new. test_acc st' = test_acc st @ new \<and>
                length new = nat (batch_per_epoch_eval self)"
    using ft fv s' by simp
  have E: "loop_i st = None \<longrightarrow> 2 \<le> batch_per_epoch_train self"
    "1 \<le> batch_per_epoch_eval self" "fs st' = fs st"
    "model_save_path st' = model_save_path st"
    using ft fv s' by simp_all
  from A B C D E show ?thesis by blast
qed

lemma epoch_loop_Inr:
  "epoch_loop eng self c opt sch n es st = Inr st' \<Longrightarrow>
     (\<exists>new. train_loss st' = train_loss st @ new \<and>
            length new = length es * nat (batch_per_epoch_train self)) \<and>
     (\<exists>new. train_acc st' = train_acc st @ new \<and>
            length new = length es * nat (batch_per_epoch_train self)) \<and>
     (\<exists>new. test_acc st' = test_acc st @ new \<and>
            length new = length es * nat (batch_per_epoch_eval self)) \<and>
     (\<exists>vals. length vals = length es \<and>
             trace st' = trace st @ concat (map2 (epoch_events self n) es vals)) \<and>
     (es \<noteq> [] \<and> loop_i st = None \<longrightarrow> 2 \<le> batch_per_epoch_train self) \<and>
     (es \<noteq> [] \<longrightarrow> 1 \<le> batch_per_epoch_eval self) \<and>
     fs st' = fs st \<and>
     model_save_path st' = model_save_path st"
proof (induction es arbitrary: st)
  case Nil
  have "length ([] :: (pyfloat \<times> real) list) = length ([] :: int list) \<and>
        trace st' = trace st @ concat (map2 (epoch_events self n) [] [])"
    using Nil by simp
  then have "\<exists>vals. length vals = length ([] :: int list) \<and>
        trace st' = trace st @ concat (map2 (epoch_events self n) [] vals)"
    by blast
  with Nil show ?case by simp
next
  case (Cons e es)
  from Cons.prems obtain st1 where
    r: "run_epoch eng self c opt sch n e st = Inr st1" and
    l: "epoch_loop eng self c opt sch n es st1 = Inr st'"
    by (auto split: sum.splits)
  note f = run_epoch_Inr [OF r]
  note ih = Cons.IH [OF l]
  from f obtain a1 where a1: "train_loss st1 = train_loss st @ a1"
    "length a1 = nat (batch_per_epoch_train self)" by blast
  from ih obtain a2 where a2: "train_loss st' = train_loss st1 @ a2"
    "length a2 = length es * nat (batch_per_epoch_train self)" by blast
  have "train_loss st' = train_loss st @ (a1 @ a2)"
    "length (a1 @ a2) = length (e # es) * nat (batch_per_epoch_train self)"
    using a1 a2 by simp_all
  then have A: "\<exists>new. train_loss st' = train_loss st @ new \<and>
            length new = length (e # es) * nat (batch_per_epoch_train self)" by blast
  from f obtain b1 where b1: "train_acc st1 = train_acc st @ b1"
    "length b1 = nat (batch_per_epoch_train self)" by blast
  from ih obtain b2 where b2: "train_acc st' = train_acc st1 @ b2"
    "length b2 = length es * nat (batch_per_epoch_train self)" by blast
  have "train_acc st' = train_acc st @ (b1 @ b2)"
    "length (b1 @ b2) = length (e # es) * nat (batch_per_epoch_train self)"
    using b1 b2 by simp_all
  then have B: "\<exists>new. train_acc st' = train_acc st @ new \<and>
            length new = length (e # es) * nat (batch_per_epoch_train self)" by blast
  from f obtain c1 where c1: "test_acc st1 = test_acc st @ c1"
    "length c1 = nat (batch_per_epoch_eval self)" by blast
  from ih obtain c2 where c2: "test_acc st' = test_acc st1 @ c2"
    "length c2 = length es * nat (batch_per_epoch_eval self)" by blast
  have "test_acc st' = test_acc st @ (c1 @ c2)"
    "length (c1 @ c2) = length (e # es) * nat (batch_per_epoch_eval self)"
    using c1 c2 by simp_all
  then have C: "\<exists>new. test_acc st' = test_acc st @ new \<and>
            length new = length (e # es) * nat (batch_per_epoch_eval self)" by blast
  from f obtain xy where xy: "trace st1 = trace st @ epoch_events self n e xy" by blast
  from ih obtain vals where vals: "length vals = length es"
    "trace st' = trace st1 @ concat (map2 (epoch_events self n) es vals)" by blast
  have "length (xy # vals) = length (e # es)"
    "trace st' = trace st @ concat (map2 (epoch_events self n) (e # es) (xy # vals))"
    using xy vals by simp_all
  then have D: "\<exists>vals. length vals = length (e # es) \<and>
             trace st' = trace st @ concat (map2 (epoch_events self n) (e # es) vals)"
    by blast
  have E: "e # es \<noteq> [] \<and> loop_i st = None \<longrightarrow> 2 \<le> batch_per_epoch_train self"
    "e # es \<noteq> [] \<longrightarrow> 1 \<le> batch_per_epoch_eval self"
    "fs st' = fs st" "model_save_path st' = model_save_path st"
    using f ih by simp_all
  from A B C D E show ?case by blast
qed

lemma train_epochs_Inr:
  assumes "train_epochs eng self n lr0 wd gm st0 = Inr st4"
  shows "length (train_loss st4) = nat n * nat (batch_per_epoch_train self) \<and>
         length (train_acc st4) = nat n * nat (batch_per_epoch_train self) \<and>
         length (test_acc st4) = nat n * nat (batch_per_epoch_eval self) \<and>
         (\<exists>vals. length vals = nat n \<and>
            trace st4 = trace st0 @ [Print PreparingLossFn, Print InitialisedSuccessfully]
                          @ concat (map2 (epoch_events self n) [1..n] vals)) \<and>
         (1 \<le> n \<longrightarrow> 2 \<le> batch_per_epoch_train self \<and> 1 \<le> batch_per_epoch_eval self) \<and>
         fs st4 = fs st0 \<and>
         model_save_path st4 = model_save_path st0"
proof -
  define st3 where "st3 = emit (Print InitialisedSuccessfully) (emit (Print PreparingLossFn)
      (st0\<lparr>train_loss := [], train_acc := [], test_acc := [], loop_i := None\<rparr>))"
  from assms obtain c opt sch where
    l: "epoch_loop eng self c opt sch n [1..n] st3 = Inr st4"
    unfolding train_epochs_def st3_def Let_def
    by (auto split: sum.splits prod.splits)
  note f = epoch_loop_Inr [OF l]
  have s3: "train_loss st3 = []" "train_acc st3 = []" "test_acc st3 = []"
    "loop_i st3 = None" "fs st3 = fs st0" "model_save_path st3 = model_save_path st0"
    "trace st3 = trace st0 @ [Print PreparingLossFn, Print InitialisedSuccessfully]"
    by (simp_all add: st3_def emit_def)
  have len: "length [1..n] = nat n" by simp
  have ne: "[1..n] \<noteq> [] \<longleftrightarrow> 1 \<le> n" by auto
  have A: "length (train_loss st4) = nat n * nat (batch_per_epoch_train self)"
    "length (train_acc st4) = nat n * nat (batch_per_epoch_train self)"
    "length (test_acc st4) = nat n * nat (batch_per_epoch_eval self)"
    using f s3 len by auto
  from f obtain vals where "length vals = length [1..n]"
    "trace st4 = trace st3 @ concat (map2 (epoch_events self n) [1..n] vals)" by blast
  then have "length vals = nat n \<and>
            trace st4 = trace st0 @ [Print PreparingLossFn, Print InitialisedSuccessfully]
                          @ concat (map2 (epoch_events self n) [1..n] vals)"
    using s3 len by simp
  then have B: "\<exists>vals. length vals = nat n \<and>
            trace st4 = trace st0 @ [Print PreparingLossFn, Print InitialisedSuccessfully]
                          @ concat (map2 (epoch_events self n) [1..n] vals)" by blast
  have C: "1 \<le> n \<longrightarrow> 2 \<le> batch_per_epoch_train self \<and> 1 \<le> batch_per_epoch_eval self"
    using f s3 ne by simp
  have D: "fs st4 = fs st0" "model_save_path st4 = model_save_path st0"
    using f s3 by simp_all
  from A B C D show ?thesis by blast
qed

lemma checkpoint_Inr:
  assumes "checkpoint eng st = Inr (path, st')"
  shows "train_loss st' = train_loss st \<and> train_acc st' = train_acc st \<and>
         test_acc st' = test_acc st \<and> model_save_path st' = Some path \<and>
         (\<exists>C. trace st' = trace st @ C @ [Save path] \<and> SchedulerStep \<notin> set C)"
proof -
  from assms obtain p where p: "model_save_path st = Some p"
    by (auto simp: checkpoint_def emit_def Let_def split: option.splits)
  show ?thesis
  proof (cases "isdir eng (fs st) (dirname p)")
    case True
    with assms p have
      "train_loss st' = train_loss st \<and> train_acc st' = train_acc st \<and>
       test_acc st' = test_acc st \<and> model_save_path st' = Some path \<and>
       trace st' = trace st @ [Print CheckingPath, Print (SavingModelAt p)] @ [Save path]"
      by (auto simp: checkpoint_def emit_def Let_def split: sum.splits)
    moreover have "SchedulerStep \<notin> set [Print CheckingPath, Print (SavingModelAt p)]" by simp
    ultimately show ?thesis by blast
  next
    case False
    with assms p have
      "train_loss st' = train_loss st \<and> train_acc st' = train_acc st \<and>
       test_acc st' = test_acc st \<and> model_save_path st' = Some path \<and>
       trace st' = trace st @ [Print CheckingPath, Print CreatingDirectory, Mkdir (dirname p),
         Print (SavingModelAt (dirname (dirname p @ ''/imd-sa.bin'') @ ''/imdb-sa.bin''))]
         @ [Save path]"
      by (auto simp: checkpoint_def emit_def Let_def split: sum.splits)
    moreover have "SchedulerStep \<notin> set [Print CheckingPath, Print CreatingDirectory,
         Mkdir (dirname p),
         Print (SavingModelAt (dirname (dirname p @ ''/imd-sa.bin'') @ ''/imdb-sa.bin''))]"
      by simp
    ultimately show ?thesis by blast
  qed
qed

lemma train_Inr:
  assumes "train eng self n lr0 wd gm st0 = Inr ((hl, ha, he, path), st')"
  shows "\<exists>st4. train_epochs eng self n lr0 wd gm st0 = Inr st4 \<and>
               checkpoint eng (emit (Print TrainingFinished) st4) = Inr (path, st') \<and>
               hl = train_loss st' \<and> ha = train_acc st' \<and> he = test_acc st'"
  using assms unfolding train_def by (auto split: sum.splits prod.splits)

section \<open>What any run has done\<close>

text \<open>
  For each loop body, loop and phase, whether it returns or raises: it is quiet. The epoch loop
  has run a number of whole epochs, and then nothing or the part of an epoch that raised.
\<close>

lemma quiet_refl [simp]: "quiet st st"
  by (simp add: quiet_def)









lemma epoch_events_count [simp]: "count_list (epoch_events self n e xy) SchedulerStep = 1"
proof -
  have "SchedulerStep \<notin> set (concat (replicate (nat (batch_per_epoch_train self)) batch_events))"
    by (auto simp: batch_events_def)
  then have a: "count_list (concat (replicate (nat (batch_per_epoch_train self)) batch_events))
                  SchedulerStep = 0"
    by (simp only: count_list_0_iff not_False_eq_True)
  have "SchedulerStep \<notin> set (replicate (nat (batch_per_epoch_eval self)) Forward)" by auto
  then have b: "count_list (replicate (nat (batch_per_epoch_eval self)) Forward) SchedulerStep = 0"
    by (simp only: count_list_0_iff not_False_eq_True)
  show ?thesis by (simp add: epoch_events_def a b)
qed

lemma epoch_events_last [simp]: "last (epoch_events self n e xy) = SchedulerStep"
  by (simp add: epoch_events_def)






lemma error_of_Inr: "error_of (Inr st) = None"
  by (simp add: error_of_def)


section \<open>Evaluating the small instance\<close>

lemmas demo_defs =
  train_def train_epochs_def prepare_lossfn_optims_lr_scheduler_def nn_call_def
  demo_engine_def demo_trainer_def demo_state_def batch_a_def batch_b_def torch_nn_def
  run_epoch_def train_phase_def validate_phase_def train_batch_def validate_batch_def
  checkpoint_def dirname_def emit_def trange_def upto.simps accuracy_def argmax_dim1_def
  tensor_eq_def float_mean_def tensor_sum_def Let_def
  returned_def raised_def final_state_def end_state_def error_of_def

section \<open>Properties of \<^verbatim>\<open>prepare_lossfn_optims_lr_scheduler\<close>\<close>



text \<open>
  Claim C7. With \<^verbatim>\<open>torch.nn\<close> as it is, \<^verbatim>\<open>"bce"\<close> raises an attribute error,
  because line 132 calls \<^verbatim>\<open>nn.BCE\<close>, which the module does not have; \<^verbatim>\<open>"cel"\<close>
  returns the cross-entropy loss with the optimizer and the scheduler.
\<close>

theorem bce_raises_attribute_error:
  "prepare_lossfn_optims_lr_scheduler torch_nn (demo_trainer\<lparr>criterator := ''bce''\<rparr>) lr0 wd gm =
     Inl (AttributeError ''BCE'') \<and>
   prepare_lossfn_optims_lr_scheduler torch_nn demo_trainer lr0 wd gm =
     Inr (''CrossEntropyLoss'',
          \<lparr>kind = AdamW, lr = lr0, betas = (9 / 10, 999 / 1000), eps = 1 / 1000000,
           weight_decay = wd\<rparr>,
          \<lparr>sched_optimizer = \<lparr>kind = AdamW, lr = lr0, betas = (9 / 10, 999 / 1000),
                              eps = 1 / 1000000, weight_decay = wd\<rparr>,
           gamma = gm, verbose = True\<rparr>)"
  by (simp add: prepare_lossfn_optims_lr_scheduler_def nn_call_def torch_nn_def demo_trainer_def)

section \<open>The average training loss\<close>

text \<open>
  Claim C1. With two training batches of losses 1 and 3, the message of line 265 carries 4,
  the running sum divided by the last loop index 1, where the mean over the two batches is 2.
\<close>

theorem average_training_loss_divides_by_last_index:
  "trace (end_state (train_phase demo_engine demo_trainer ''CrossEntropyLoss'' opt 1 1 demo_state)) =
     [ModelTrain True, Print Training, ZeroGrad, Forward, Backward, OptimizerStep,
      ZeroGrad, Forward, Backward, OptimizerStep, Print (AverageTrainingLoss 1 1 (Val 4))] \<and>
   train_loss (end_state (train_phase demo_engine demo_trainer ''CrossEntropyLoss'' opt 1 1
      demo_state)) = [Val 1, Val 3] \<and>
   batch_per_epoch_train demo_trainer = 2"
  by (simp add: demo_defs)

section \<open>The whole call\<close>

lemma final_state_Inl: "final_state (Inl x) = snd x"
  by (simp add: final_state_def)

lemma final_state_Inr: "final_state (Inr x) = snd x"
  by (simp add: final_state_def)



lemma demo_train_run:
  "train demo_engine demo_trainer 1 (1 / 1000) (1 / 10000) (1 / 10) demo_state =
     Inr (([Val 1, Val 3], [Val 1, Val 0], [Val 1, Val 0], ''ckpt/imd-sa.bin''),
          final_state (train demo_engine demo_trainer 1 (1 / 1000) (1 / 10000) (1 / 10)
             demo_state))"
  by (simp add: demo_defs)

section \<open>The scheduler step\<close>




section \<open>The lengths of the histories\<close>

text \<open>
  Claim C3, as amended. When \<^verbatim>\<open>train\<close> returns, the histories of training loss and
  training accuracy have length \<open>max 0 num_epochs * batch_per_epoch_train\<close> and the history of
  test accuracy has length \<open>max 0 num_epochs * batch_per_epoch_eval\<close>. Any run of epochs
  that completes only appends to the three histories, one value per batch.
\<close>

theorem history_lengths:
  assumes "train eng self num_epochs learning_rate wd gm st0 = Inr ((hl, ha, he, path), st')"
  shows "int (length hl) = max 0 num_epochs * batch_per_epoch_train self \<and>
         int (length ha) = max 0 num_epochs * batch_per_epoch_train self \<and>
         int (length he) = max 0 num_epochs * batch_per_epoch_eval self \<and>
         (\<forall>c opt sch es st st2.
            epoch_loop eng self c opt sch num_epochs es st = Inr st2 \<longrightarrow>
              (\<exists>new. train_loss st2 = train_loss st @ new \<and>
                     length new = length es * nat (batch_per_epoch_train self)) \<and>
              (\<exists>new. train_acc st2 = train_acc st @ new \<and>
                     length new = length es * nat (batch_per_epoch_train self)) \<and>
              (\<exists>new. test_acc st2 = test_acc st @ new \<and>
                     length new = length es * nat (batch_per_epoch_eval self)))"
proof (intro conjI allI impI)
  from train_Inr [OF assms] obtain st4 where
    e: "train_epochs eng self num_epochs learning_rate wd gm st0 = Inr st4" and
    c: "checkpoint eng (emit (Print TrainingFinished) st4) = Inr (path, st')" and
    h: "hl = train_loss st'" "ha = train_acc st'" "he = test_acc st'"
    by (elim exE conjE)
  note fe = train_epochs_Inr [OF e]
  note fc = checkpoint_Inr [OF c]
  have l: "length hl = nat num_epochs * nat (batch_per_epoch_train self)"
    "length ha = nat num_epochs * nat (batch_per_epoch_train self)"
    "length he = nat num_epochs * nat (batch_per_epoch_eval self)"
    using fe fc h by (simp_all add: emit_def)
  have pos: "1 \<le> num_epochs \<Longrightarrow> 2 \<le> batch_per_epoch_train self \<and> 1 \<le> batch_per_epoch_eval self"
    using fe by simp
  show "int (length hl) = max 0 num_epochs * batch_per_epoch_train self"
  proof (cases "1 \<le> num_epochs")
    case True
    with pos l(1) show ?thesis by (simp add: max_def)
  next
    case False
    with l(1) show ?thesis by (simp add: max_def)
  qed
  show "int (length ha) = max 0 num_epochs * batch_per_epoch_train self"
  proof (cases "1 \<le> num_epochs")
    case True
    with pos l(2) show ?thesis by (simp add: max_def)
  next
    case False
    with l(2) show ?thesis by (simp add: max_def)
  qed
  show "int (length he) = max 0 num_epochs * batch_per_epoch_eval self"
  proof (cases "1 \<le> num_epochs")
    case True
    with pos l(3) show ?thesis by (simp add: max_def)
  next
    case False
    with l(3) show ?thesis by (simp add: max_def)
  qed
next
  fix c opt sch es st st2
  assume a: "epoch_loop eng self c opt sch num_epochs es st = Inr st2"
  note f = epoch_loop_Inr [OF a]
  show "\<exists>new. train_loss st2 = train_loss st @ new \<and>
              length new = length es * nat (batch_per_epoch_train self)"
    using f by (elim conjE)
  show "\<exists>new. train_acc st2 = train_acc st @ new \<and>
              length new = length es * nat (batch_per_epoch_train self)"
    using f by (elim conjE)
  show "\<exists>new. test_acc st2 = test_acc st @ new \<and>
              length new = length es * nat (batch_per_epoch_eval self)"
    using f by (elim conjE)
qed

text \<open>The theorem at the small instance: one epoch of two batches each.\<close>

theorem history_lengths_witness:
  "returned (train demo_engine demo_trainer 1 (1 / 1000) (1 / 10000) (1 / 10) demo_state) =
     Some ([Val 1, Val 3], [Val 1, Val 0], [Val 1, Val 0], ''ckpt/imd-sa.bin'') \<and>
   int (length [Val 1, Val 3]) = max 0 1 * batch_per_epoch_train demo_trainer \<and>
   int (length [Val 1, Val 0]) = max 0 1 * batch_per_epoch_eval demo_trainer"
proof -
  have "returned (train demo_engine demo_trainer 1 (1 / 1000) (1 / 10000) (1 / 10) demo_state) =
     Some ([Val 1, Val 3], [Val 1, Val 0], [Val 1, Val 0], ''ckpt/imd-sa.bin'')"
    by (subst demo_train_run) (simp add: returned_def)
  moreover have "int (length [Val 1, Val 3]) = max 0 1 * batch_per_epoch_train demo_trainer \<and>
   int (length [Val 1, Val 0]) = max 0 1 * batch_per_epoch_eval demo_trainer"
    using history_lengths [OF demo_train_run] by (elim conjE) (intro conjI)
  ultimately show ?thesis by (intro conjI) simp_all
qed

text \<open>
  Claim C3 as first stated fails for a negative number of epochs: the call returns empty
  histories, whose length 0 is not the negative product.
\<close>

theorem history_lengths_counterexample:
  "returned (train demo_engine demo_trainer (- 1) (1 / 1000) (1 / 10000) (1 / 10) demo_state) =
     Some ([], [], [], ''ckpt/imd-sa.bin'') \<and>
   int (length ([] :: pyfloat list)) \<noteq> (- 1) * batch_per_epoch_train demo_trainer"
  by (simp add: demo_defs)

section \<open>The checkpoint without a save path\<close>

text \<open>
  Claim C9. When \<^verbatim>\<open>self.model_save_path\<close> is \<open>None\<close>, \<^verbatim>\<open>train\<close> never returns
  its histories. A call whose epochs all complete raises the type error of
  \<^verbatim>\<open>os.path.dirname(None)\<close> right after the message of line 302, and the file system is
  then what it was before the call: no checkpoint is written.
\<close>

theorem no_save_path_raises_at_checkpoint:
  assumes "model_save_path st0 = None"
  shows "returned (train eng self num_epochs lr0 wd gm st0) = None \<and>
         (\<forall>st4. train_epochs eng self num_epochs lr0 wd gm st0 = Inr st4 \<longrightarrow>
            train eng self num_epochs lr0 wd gm st0 =
              Inl (TypeError, emit (Print CheckingPath) (emit (Print TrainingFinished) st4)) \<and>
            fs (final_state (train eng self num_epochs lr0 wd gm st0)) = fs st0 \<and>
            trace (final_state (train eng self num_epochs lr0 wd gm st0)) =
              trace st4 @ [Print TrainingFinished, Print CheckingPath])"
proof -
  have A: "train eng self num_epochs lr0 wd gm st0 =
              Inl (TypeError, emit (Print CheckingPath) (emit (Print TrainingFinished) st4)) \<and>
            fs (final_state (train eng self num_epochs lr0 wd gm st0)) = fs st0 \<and>
            trace (final_state (train eng self num_epochs lr0 wd gm st0)) =
              trace st4 @ [Print TrainingFinished, Print CheckingPath]"
    if e: "train_epochs eng self num_epochs lr0 wd gm st0 = Inr st4" for st4
  proof -
    note f = train_epochs_Inr [OF e]
    have p: "model_save_path st4 = None" using f assms by simp
    have c: "checkpoint eng (emit (Print TrainingFinished) st4) =
               Inl (TypeError, emit (Print CheckingPath) (emit (Print TrainingFinished) st4))"
      using p by (simp add: checkpoint_def emit_def Let_def)
    have t: "train eng self num_epochs lr0 wd gm st0 =
              Inl (TypeError, emit (Print CheckingPath) (emit (Print TrainingFinished) st4))"
      using e c by (simp add: train_def)
    have "fs st4 = fs st0" using f by simp
    then show ?thesis unfolding t by (simp add: final_state_def emit_def)
  qed
  have B: "returned (train eng self num_epochs lr0 wd gm st0) = None"
  proof (cases "train_epochs eng self num_epochs lr0 wd gm st0")
    case (Inl x)
    then show ?thesis by (simp add: train_def returned_def)
  next
    case (Inr st4)
    with A [OF Inr] show ?thesis by (simp add: returned_def)
  qed
  from A B show ?thesis by blast
qed

text \<open>The theorem at the small instance without a save path.\<close>

theorem no_save_path_raises_at_checkpoint_witness:
  "raised (train demo_engine demo_trainer 1 (1 / 1000) (1 / 10000) (1 / 10)
     (demo_state\<lparr>model_save_path := None\<rparr>)) = Some TypeError \<and>
   returned (train demo_engine demo_trainer 1 (1 / 1000) (1 / 10000) (1 / 10)
     (demo_state\<lparr>model_save_path := None\<rparr>)) = None \<and>
   fs (final_state (train demo_engine demo_trainer 1 (1 / 1000) (1 / 10000) (1 / 10)
     (demo_state\<lparr>model_save_path := None\<rparr>))) = ([], [])"
proof -
  have h: "model_save_path (demo_state\<lparr>model_save_path := None\<rparr>) = None" by simp
  have e: "train_epochs demo_engine demo_trainer 1 (1 / 1000) (1 / 10000) (1 / 10)
             (demo_state\<lparr>model_save_path := None\<rparr>) =
           Inr (end_state (train_epochs demo_engine demo_trainer 1 (1 / 1000) (1 / 10000) (1 / 10)
             (demo_state\<lparr>model_save_path := None\<rparr>)))"
    by (simp add: demo_defs)
  note t = no_save_path_raises_at_checkpoint
             [OF h, of demo_engine demo_trainer 1 "1 / 1000" "1 / 10000" "1 / 10"]
  from t have r: "returned (train demo_engine demo_trainer 1 (1 / 1000) (1 / 10000) (1 / 10)
     (demo_state\<lparr>model_save_path := None\<rparr>)) = None"
    by (elim conjE)
  from t e have
    "train demo_engine demo_trainer 1 (1 / 1000) (1 / 10000) (1 / 10)
       (demo_state\<lparr>model_save_path := None\<rparr>) =
     Inl (TypeError, emit (Print CheckingPath) (emit (Print TrainingFinished)
       (end_state (train_epochs demo_engine demo_trainer 1 (1 / 1000) (1 / 10000) (1 / 10)
             (demo_state\<lparr>model_save_path := None\<rparr>)))))"
    "fs (final_state (train demo_engine demo_trainer 1 (1 / 1000) (1 / 10000) (1 / 10)
       (demo_state\<lparr>model_save_path := None\<rparr>))) = fs (demo_state\<lparr>model_save_path := None\<rparr>)"
    by blast+
  then have "raised (train demo_engine demo_trainer 1 (1 / 1000) (1 / 10000) (1 / 10)
     (demo_state\<lparr>model_save_path := None\<rparr>)) = Some TypeError"
    "fs (final_state (train demo_engine demo_trainer 1 (1 / 1000) (1 / 10000) (1 / 10)
     (demo_state\<lparr>model_save_path := None\<rparr>))) = ([], [])"
    by (simp_all add: raised_def demo_state_def)
  with r show ?thesis by (intro conjI)
qed

section \<open>One training batch per epoch\<close>

lemma train_phase_single_batch:
  assumes "batch_per_epoch_train self = 1"
  shows "train_phase eng self c opt n e st =
           (case train_batch eng self c opt 0
                   (emit (Print Training) (emit (ModelTrain True)
                      (st\<lparr>running_train_loss := Val 0,
                          model := set_training eng True (model st)\<rparr>))) of
              Inl x \<Rightarrow> Inl x
            | Inr st1 \<Rightarrow> Inl (ZeroDivisionError, st1))"
proof -
  let ?st3 = "emit (Print Training) (emit (ModelTrain True)
                      (st\<lparr>running_train_loss := Val 0,
                          model := set_training eng True (model st)\<rparr>))"
  show ?thesis
  proof (cases "train_batch eng self c opt 0 ?st3")
    case (Inl x)
    then show ?thesis
      by (simp add: train_phase_def assms Let_def)
  next
    case (Inr st1)
    from train_batch_Inr [OF Inr] have "loop_i st1 = Some 0" by (elim exE conjE)
    with Inr show ?thesis
      by (simp add: train_phase_def assms Let_def)
  qed
qed

text \<open>
  Claim C10, as amended. With \<open>batch_per_epoch_train = 1\<close> and at least one epoch asked
  for, \<^verbatim>\<open>train\<close> never returns. A training phase runs its single batch; when the batch
  raises, its exception goes up, and when it does not, line 265 divides by the loop index 0
  and raises \<open>ZeroDivisionError\<close> in the state the batch left.
\<close>

theorem single_batch_epoch_divides_by_zero:
  assumes "batch_per_epoch_train self = 1" and "1 \<le> num_epochs"
  shows "returned (train eng self num_epochs lr0 wd gm st0) = None \<and>
         (\<forall>c opt e st.
            train_phase eng self c opt num_epochs e st =
              (case train_batch eng self c opt 0
                      (emit (Print Training) (emit (ModelTrain True)
                         (st\<lparr>running_train_loss := Val 0,
                             model := set_training eng True (model st)\<rparr>))) of
                 Inl x \<Rightarrow> Inl x
               | Inr st1 \<Rightarrow> Inl (ZeroDivisionError, st1)))"
proof (rule conjI)
  have ph: "\<exists>x. train_phase eng self c opt num_epochs e st = Inl x" for c opt e st
    unfolding train_phase_single_batch [OF assms(1)] by (simp split: sum.splits)
  have ep: "\<exists>x. run_epoch eng self c opt sch num_epochs e st = Inl x" for c opt sch e st
    using ph [of c opt e st] by (auto simp: run_epoch_def)
  have up: "[1..num_epochs] = 1 # [2..num_epochs]"
    using assms(2) upto_rec1 [of 1 num_epochs] by simp
  have lo: "\<exists>x. epoch_loop eng self c opt sch num_epochs [1..num_epochs] st = Inl x"
    for c opt sch st
    unfolding up using ep [of c opt sch 1 st] by auto
  have te: "\<exists>x. train_epochs eng self num_epochs lr0 wd gm st0 = Inl x"
    using lo by (auto simp: train_epochs_def Let_def split: sum.splits prod.splits)
  then show "returned (train eng self num_epochs lr0 wd gm st0) = None"
    by (auto simp: train_def returned_def)
next
  show "\<forall>c opt e st.
            train_phase eng self c opt num_epochs e st =
              (case train_batch eng self c opt 0
                      (emit (Print Training) (emit (ModelTrain True)
                         (st\<lparr>running_train_loss := Val 0,
                             model := set_training eng True (model st)\<rparr>))) of
                 Inl x \<Rightarrow> Inl x
               | Inr st1 \<Rightarrow> Inl (ZeroDivisionError, st1))"
    by (intro allI) (rule train_phase_single_batch [OF assms(1)])
qed

text \<open>The theorem at the small instance with one training batch per epoch.\<close>

theorem single_batch_epoch_divides_by_zero_witness:
  "batch_per_epoch_train (demo_trainer\<lparr>batch_per_epoch_train := 1\<rparr>) = 1 \<and> (1::int) \<le> 1 \<and>
   returned (train demo_engine (demo_trainer\<lparr>batch_per_epoch_train := 1\<rparr>) 1
     (1 / 1000) (1 / 10000) (1 / 10) demo_state) = None \<and>
   raised (train demo_engine (demo_trainer\<lparr>batch_per_epoch_train := 1\<rparr>) 1
     (1 / 1000) (1 / 10000) (1 / 10) demo_state) = Some ZeroDivisionError"
proof -
  have h: "batch_per_epoch_train (demo_trainer\<lparr>batch_per_epoch_train := 1\<rparr>) = 1" by simp
  have n: "(1::int) \<le> 1" by simp
  have "returned (train demo_engine (demo_trainer\<lparr>batch_per_epoch_train := 1\<rparr>) 1
     (1 / 1000) (1 / 10000) (1 / 10) demo_state) = None"
    by (rule conjunct1 [OF single_batch_epoch_divides_by_zero [OF h n]])
  moreover have "raised (train demo_engine (demo_trainer\<lparr>batch_per_epoch_train := 1\<rparr>) 1
     (1 / 1000) (1 / 10000) (1 / 10) demo_state) = Some ZeroDivisionError"
    by (simp add: demo_defs)
  ultimately show ?thesis using h n by (intro conjI)
qed

text \<open>
  Claim C10 as first stated, for every trainer with one training batch per epoch, fails: a
  call for no epoch returns, and a call whose training source is exhausted raises
  \<open>StopIteration\<close> before any division.
\<close>

theorem single_batch_epoch_counterexample:
  "returned (train demo_engine (demo_trainer\<lparr>batch_per_epoch_train := 1\<rparr>) 0
     (1 / 1000) (1 / 10000) (1 / 10) demo_state) = Some ([], [], [], ''ckpt/imd-sa.bin'') \<and>
   raised (train demo_engine (demo_trainer\<lparr>batch_per_epoch_train := 1\<rparr>) 1
     (1 / 1000) (1 / 10000) (1 / 10) (demo_state\<lparr>train_generator := []\<rparr>)) = Some StopIteration"
  by (simp add: demo_defs)

section \<open>The checkpoint into a missing directory\<close>








section \<open>The validation accuracy of an epoch\<close>





end
